theory Spec2Isabelle
  imports Complex_Main
begin

section \<open>Numbers\<close>

text \<open>
  A JavaScript \<^verbatim>\<open>number\<close> is modelled as a real: the development is about the
  algorithms of \<^verbatim>\<open>api/openmeteo.ts\<close> and \<^verbatim>\<open>api/tide.ts\<close>, not about
  IEEE rounding, NaN or signed zeros.

  \<^verbatim>\<open>Math.round(x)\<close> is the integer nearest to \<open>x\<close>, a tie going up;
  \<^verbatim>\<open>+x.toFixed(k)\<close> is the multiple of \<open>10^-k\<close> nearest to \<open>x\<close>, a tie going
  away from zero (the sign is set aside and the larger candidate taken for \<open>\<bar>x\<bar>\<close>).
\<close>

definition Math_round :: "real \<Rightarrow> real" where
  "Math_round x = of_int \<lfloor>x + 1 / 2\<rfloor>"

definition toFixed :: "nat \<Rightarrow> real \<Rightarrow> real" where
  "toFixed k x =
     (if x < 0 then - (of_int \<lfloor>- x * 10 ^ k + 1 / 2\<rfloor> / 10 ^ k)
      else of_int \<lfloor>x * 10 ^ k + 1 / 2\<rfloor> / 10 ^ k)"

section \<open>Forecast types (types.ts)\<close>

record DayForecast =
  day :: string
  date :: string
  wind :: real
  gust :: real
  temp :: real
  rain :: real
  cloud :: real
  tideHigh :: real
  tideLow :: real
  tideRange :: real
  dirDeg :: real
  spread :: "real option"
  confidence :: "real option"
  modelAgreement :: "string option"

record HourForecast =
  hour :: string
  wind :: real
  gust :: real
  temp :: real
  rain :: real
  dirDeg :: real
  tide :: real
  spread :: "real option"
  confidence :: "real option"

definition BASE_MODELS :: "string list" where
  "BASE_MODELS = [''GFS'', ''ECMWF'', ''ICON'', ''MF'', ''GEM'']"

section \<open>Blend utilities (openmeteo.ts)\<close>

definition MODEL_WEIGHT :: "string \<rightharpoonup> real" where
  "MODEL_WEIGHT = map_of
     [(''ECMWF'', 13 / 10), (''GFS'', 1), (''ICON'', 11 / 10), (''MF'', 85 / 100), (''GEM'', 8 / 10)]"

text \<open>\<^verbatim>\<open>MODEL_WEIGHT[m] ?? 1.0\<close>\<close>

definition weightOf :: "string \<Rightarrow> real" where
  "weightOf m = (case MODEL_WEIGHT m of Some w \<Rightarrow> w | None \<Rightarrow> 1)"

record Blend =
  mean :: real
  spread :: real
  confidence :: real

text \<open>
  The two accumulation loops of \<^verbatim>\<open>blendValues\<close>
  (\<^verbatim>\<open>sumV += values[i] * weights[i]; sumW += weights[i]\<close>) over a list of indices,
  followed by the division \<^verbatim>\<open>sumV / sumW\<close>.
\<close>

definition sumV :: "real list \<Rightarrow> real list \<Rightarrow> nat list \<Rightarrow> real" where
  "sumV values weights idx = fold (\<lambda>i s. s + values ! i * weights ! i) idx 0"

definition sumW :: "real list \<Rightarrow> nat list \<Rightarrow> real" where
  "sumW weights idx = fold (\<lambda>i s. s + weights ! i) idx 0"

definition weightedMean :: "real list \<Rightarrow> real list \<Rightarrow> nat list \<Rightarrow> real" where
  "weightedMean values weights idx = sumV values weights idx / sumW weights idx"

text \<open>
  The outlier search: \<^verbatim>\<open>maxDist = 0, maxIdx = 0\<close>, and an index replaces the
  current one only when its distance is strictly larger.
\<close>

definition trimStep :: "real list \<Rightarrow> real \<Rightarrow> nat \<Rightarrow> real \<times> nat \<Rightarrow> real \<times> nat" where
  "trimStep values m i acc =
     (let dist = \<bar>values ! i - m\<bar> in if dist > fst acc then (dist, i) else acc)"

definition maxIdx :: "real list \<Rightarrow> real \<Rightarrow> nat" where
  "maxIdx values m = snd (fold (trimStep values m) [0..<length values] (0, 0))"

definition useIdx :: "real list \<Rightarrow> real list \<Rightarrow> bool \<Rightarrow> nat list" where
  "useIdx values weights trim =
     (let n = length values;
          initialMean = weightedMean values weights [0..<n]
      in if trim \<and> n \<ge> 4
         then filter (\<lambda>i. i \<noteq> maxIdx values initialMean) [0..<n]
         else [0..<n])"

text \<open>\<^verbatim>\<open>Math.max(...values)\<close> and \<^verbatim>\<open>Math.min(...values)\<close> on a non-empty list.\<close>

definition Math_max :: "real list \<Rightarrow> real" where
  "Math_max values = fold max (tl values) (hd values)"

definition Math_min :: "real list \<Rightarrow> real" where
  "Math_min values = fold min (tl values) (hd values)"

text \<open>\<^verbatim>\<open>Math.sqrt(values.reduce((s, v) => s + (v - mean) ** 2, 0) / n)\<close>\<close>

definition stdAround :: "real list \<Rightarrow> real \<Rightarrow> real" where
  "stdAround values m = sqrt (fold (\<lambda>v s. s + (v - m)\<^sup>2) values 0 / real (length values))"

definition confidenceOf :: "real list \<Rightarrow> real \<Rightarrow> real" where
  "confidenceOf values m =
     (let std = stdAround values m;
          cv = (if m > 0 then std / m else std)
      in max 0 (min 1 (1 - cv * 2)))"

definition blendValues :: "real list \<Rightarrow> string list \<Rightarrow> bool \<Rightarrow> Blend" where
  "blendValues values modelNames trim =
     (let n = length values in
      if n = 0 then \<lparr>mean = 0, spread = 0, confidence = 0\<rparr>
      else if n = 1 then \<lparr>mean = values ! 0, spread = 0, confidence = 1 / 2\<rparr>
      else
        let weights = map weightOf modelNames;
            m = weightedMean values weights (useIdx values weights trim)
        in \<lparr>mean = m,
            spread = Math_max values - Math_min values,
            confidence = confidenceOf values m\<rparr>)"

text \<open>
  \<^verbatim>\<open>Math.atan2(y, x)\<close> on reals: the angle of the point \<open>(x, y)\<close> in \<open>(-\<pi>, \<pi>]\<close>,
  and 0 at the origin.
\<close>

definition Math_atan2 :: "real \<Rightarrow> real \<Rightarrow> real" where
  "Math_atan2 y x =
     (if x > 0 then arctan (y / x)
      else if x < 0 then (if y \<ge> 0 then arctan (y / x) + pi else arctan (y / x) - pi)
      else if y > 0 then pi / 2
      else if y < 0 then - pi / 2
      else 0)"

definition circularMeanDeg :: "real list \<Rightarrow> real list \<Rightarrow> real" where
  "circularMeanDeg angles weights =
     (let idx = [0..<length angles];
          sumSin = fold (\<lambda>i s. s + sin (angles ! i * pi / 180) * weights ! i) idx 0;
          sumCos = fold (\<lambda>i s. s + cos (angles ! i * pi / 180) * weights ! i) idx 0;
          sW = fold (\<lambda>i s. s + weights ! i) idx 0;
          mean0 = Math_atan2 (sumSin / sW) (sumCos / sW) * 180 / pi;
          mean1 = (if mean0 < 0 then mean0 + 360 else mean0)
      in Math_round mean1)"

definition circularConcentration :: "real list \<Rightarrow> real" where
  "circularConcentration angles =
     (let n = length angles in
      if n \<le> 1 then 1
      else
        let sumSin = fold (\<lambda>a s. s + sin (a * pi / 180)) angles 0;
            sumCos = fold (\<lambda>a s. s + cos (a * pi / 180)) angles 0
        in sqrt (sumSin * sumSin + sumCos * sumCos) / real n)"

definition agreementLabel :: "real \<Rightarrow> string" where
  "agreementLabel c =
     (if c \<ge> 75 / 100 then ''high'' else if c \<ge> 45 / 100 then ''moderate'' else ''low'')"

section \<open>The blend paths of fetchDailyForecast and fetchHourlyForecast\<close>

text \<open>
  A rejected promise carries an \<^verbatim>\<open>Error\<close> with its message. The single-model path of
  each fetch (forecast cache, network request, normalisation) is a parameter \<open>single\<close>:
  the settled outcome of the fetch of one base model. \<^verbatim>\<open>Promise.allSettled\<close> over
  \<^verbatim>\<open>BASE_MODELS\<close> is then the list of these outcomes in the order of \<^verbatim>\<open>BASE_MODELS\<close>.
\<close>

datatype error = Error string

text \<open>
  \<^verbatim>\<open>results.forEach((r, idx) => { if (r.status === 'fulfilled')
  succeeded.push({ model: BASE_MODELS[idx], data: r.value }) })\<close>
\<close>

definition succeededOf :: "(string \<Rightarrow> error + 'a) \<Rightarrow> (string \<times> 'a) list" where
  "succeededOf single =
     List.map_filter (\<lambda>m. case single m of Inr v \<Rightarrow> Some (m, v) | Inl e \<Rightarrow> None) BASE_MODELS"

text \<open>\<^verbatim>\<open>s.data[i]?.f ?? 0\<close>: the field of the point at index \<open>i\<close>, or 0 past the end.\<close>

definition fieldAt :: "('a \<Rightarrow> real) \<Rightarrow> 'a list \<Rightarrow> nat \<Rightarrow> real" where
  "fieldAt f d i = (if i < length d then f (d ! i) else 0)"

definition blendDay :: "(string \<times> DayForecast list) list \<Rightarrow> nat \<Rightarrow> DayForecast \<Rightarrow> DayForecast" where
  "blendDay succeeded i d =
     (let modelNames = map fst succeeded;
          winds = map (\<lambda>s. fieldAt DayForecast.wind (snd s) i) succeeded;
          gusts = map (\<lambda>s. fieldAt DayForecast.gust (snd s) i) succeeded;
          temps = map (\<lambda>s. fieldAt DayForecast.temp (snd s) i) succeeded;
          rains = map (\<lambda>s. fieldAt DayForecast.rain (snd s) i) succeeded;
          dirs = map (\<lambda>s. fieldAt DayForecast.dirDeg (snd s) i) succeeded;
          weights = map weightOf modelNames;
          windBlend = blendValues winds modelNames True;
          gustBlend = blendValues gusts modelNames True;
          tempBlend = blendValues temps modelNames False;
          rainBlend = blendValues rains modelNames False;
          dirBlend = circularMeanDeg dirs weights;
          dirConf = circularConcentration dirs;
          overallConf = confidence windBlend * (6 / 10) + dirConf * (4 / 10)
      in d\<lparr>DayForecast.wind := Math_round (mean windBlend),
            DayForecast.gust := Math_round (mean gustBlend),
            DayForecast.temp := Math_round (mean tempBlend),
            DayForecast.rain := Math_round (mean rainBlend * 10) / 10,
            DayForecast.dirDeg := dirBlend,
            DayForecast.spread := Some (spread windBlend),
            DayForecast.confidence := Some (Math_round (overallConf * 100) / 100),
            DayForecast.modelAgreement := Some (agreementLabel overallConf)\<rparr>)"

definition fetchDailyForecast ::
  "(string \<Rightarrow> error + DayForecast list) \<Rightarrow> string \<Rightarrow> error + DayForecast list" where
  "fetchDailyForecast single model =
     (if model = ''BLEND'' then
        (let succeeded = succeededOf single in
         if succeeded = [] then Inl (Error ''All models failed'')
         else Inr (map (\<lambda>(i, d). blendDay succeeded i d) (List.enumerate 0 (snd (hd succeeded)))))
      else single model)"

definition blendHour :: "(string \<times> HourForecast list) list \<Rightarrow> nat \<Rightarrow> HourForecast \<Rightarrow> HourForecast" where
  "blendHour succeeded i h =
     (let modelNames = map fst succeeded;
          winds = map (\<lambda>s. fieldAt HourForecast.wind (snd s) i) succeeded;
          gusts = map (\<lambda>s. fieldAt HourForecast.gust (snd s) i) succeeded;
          temps = map (\<lambda>s. fieldAt HourForecast.temp (snd s) i) succeeded;
          rains = map (\<lambda>s. fieldAt HourForecast.rain (snd s) i) succeeded;
          dirs = map (\<lambda>s. fieldAt HourForecast.dirDeg (snd s) i) succeeded;
          weights = map weightOf modelNames;
          windBlend = blendValues winds modelNames True;
          gustBlend = blendValues gusts modelNames True;
          tempBlend = blendValues temps modelNames False;
          rainBlend = blendValues rains modelNames False;
          dirBlend = circularMeanDeg dirs weights;
          dirConf = circularConcentration dirs;
          overallConf = confidence windBlend * (6 / 10) + dirConf * (4 / 10);
          first = snd (hd succeeded)
      in h\<lparr>HourForecast.wind := Math_round (mean windBlend),
            HourForecast.gust := Math_round (mean gustBlend),
            HourForecast.temp := Math_round (mean tempBlend * 10) / 10,
            HourForecast.rain := Math_round (mean rainBlend * 10) / 10,
            HourForecast.dirDeg := dirBlend,
            HourForecast.tide :=
              (if i < length first then HourForecast.tide (first ! i) else HourForecast.tide h),
            HourForecast.spread := Some (spread windBlend),
            HourForecast.confidence := Some (Math_round (overallConf * 100) / 100)\<rparr>)"

definition fetchHourlyForecast ::
  "(string \<Rightarrow> real \<Rightarrow> error + HourForecast list) \<Rightarrow> string \<Rightarrow> real \<Rightarrow> error + HourForecast list" where
  "fetchHourlyForecast single model dayOff =
     (if model = ''BLEND'' then
        (let succeeded = succeededOf (\<lambda>m. single m dayOff) in
         if succeeded = [] then Inl (Error ''All models failed'')
         else Inr (map (\<lambda>(i, h). blendHour succeeded i h) (List.enumerate 0 (snd (hd succeeded)))))
      else single model dayOff)"

section \<open>The confidence of the specification\<close>

text \<open>
  The confidence as the specification words it, for comparison with \<open>confidenceOf\<close>:
  \<open>clamp(1 - 2 CV, 0, 1)\<close> with CV the population standard deviation of the post-trim
  values divided by their mean.
\<close>

definition postTrim :: "real list \<Rightarrow> string list \<Rightarrow> bool \<Rightarrow> real list" where
  "postTrim values modelNames trim =
     map (\<lambda>i. values ! i) (useIdx values (map weightOf modelNames) trim)"

definition average :: "real list \<Rightarrow> real" where
  "average xs = sum_list xs / real (length xs)"

definition populationStd :: "real list \<Rightarrow> real" where
  "populationStd xs = sqrt ((\<Sum>x\<leftarrow>xs. (x - average xs)\<^sup>2) / real (length xs))"

definition spec_confidence :: "real list \<Rightarrow> string list \<Rightarrow> bool \<Rightarrow> real" where
  "spec_confidence values modelNames trim =
     (let kept = postTrim values modelNames trim;
          cv = populationStd kept / average kept
      in max 0 (min 1 (1 - 2 * cv)))"

section \<open>Tide data (tide.ts)\<close>

datatype tideType = high | low

record SeaLevel =
  absHour :: real
  level :: real

record CachedExtreme = SeaLevel +
  type :: tideType

record TideCache =
  date :: string
  lat :: real
  lng :: real
  seaLevels :: "SeaLevel list"
  extremes :: "CachedExtreme list"

text \<open>
  What the module reads from outside itself: the clock (\<^verbatim>\<open>todayStr()\<close>, the time of
  local midnight of that date, \<^verbatim>\<open>new Date().getTime()\<close> and the time of
  \<^verbatim>\<open>new Date(now.getFullYear(), 0, 0)\<close>, in milliseconds) and the seed table
  \<^verbatim>\<open>Object.values(TIDE_SEEDS)\<close> of \<^verbatim>\<open>data/tideSeed\<close>.
\<close>

record Env =
  today :: string
  baseMs :: real
  nowMs :: int
  yearStartMs :: int
  seeds :: "TideCache list"

text \<open>
  The grid key \<^verbatim>\<open>tide-<gLat>-<gLng>\<close> is the string of the two rounded quotients
  \<^verbatim>\<open>Math.round(lat / 0.3)\<close> and \<^verbatim>\<open>Math.round(lng / 0.3)\<close> (each multiplied by 0.3
  and printed with one decimal); it is modelled as the pair of these two integers.
\<close>

type_synonym gridKey = "int \<times> int"

definition gridKey :: "real \<Rightarrow> real \<Rightarrow> gridKey" where
  "gridKey lat' lng' = (\<lfloor>lat' / 0.3 + 1 / 2\<rfloor>, \<lfloor>lng' / 0.3 + 1 / 2\<rfloor>)"

text \<open>
  The module state. A promise returned by \<^verbatim>\<open>doFetch()\<close> is identified by a number;
  \<open>pending\<close> lists the network requests that have been issued and have not settled yet,
  each with the grid cell it was issued for, and \<open>issued\<close> counts the requests issued so
  far. The empty \<^verbatim>\<open>inflightGrid\<close> is \<open>None\<close>.
\<close>

record TideState =
  memCache :: "TideCache option"
  apiKey :: string
  inflight :: "nat option"
  inflightGrid :: "gridKey option"
  localStorage :: "gridKey \<rightharpoonup> TideCache"
  pending :: "(nat \<times> gridKey) list"
  issued :: nat

definition findSeed :: "Env \<Rightarrow> real \<Rightarrow> real \<Rightarrow> TideCache option" where
  "findSeed env lat' lng' =
     (case find (\<lambda>seed. \<bar>lat seed - lat'\<bar> < 0.2 \<and> \<bar>lng seed - lng'\<bar> < 0.2) (seeds env) of
        Some seed \<Rightarrow> Some (seed\<lparr>date := today env\<rparr>)
      | None \<Rightarrow> None)"

definition findSeedByLat :: "Env \<Rightarrow> real \<Rightarrow> TideCache option" where
  "findSeedByLat env lat' =
     (case find (\<lambda>seed. \<bar>lat seed - lat'\<bar> < 0.2) (seeds env) of
        Some seed \<Rightarrow> Some (seed\<lparr>date := today env\<rparr>)
      | None \<Rightarrow> None)"

definition cacheCovers :: "Env \<Rightarrow> real \<Rightarrow> real \<Rightarrow> TideState \<Rightarrow> bool" where
  "cacheCovers env lat' lng' s =
     (case memCache s of
        None \<Rightarrow> False
      | Some c \<Rightarrow>
          if date c \<noteq> today env then False
          else \<bar>lat c - lat'\<bar> < 0.3 \<and> \<bar>lng c - lng'\<bar> < 0.3)"

definition ensureCache :: "Env \<Rightarrow> real \<Rightarrow> TideState \<Rightarrow> TideCache option \<times> TideState" where
  "ensureCache env lat' s =
     (if (case memCache s of Some c \<Rightarrow> \<bar>lat c - lat'\<bar> < 0.3 | None \<Rightarrow> False)
      then (memCache s, s)
      else case findSeedByLat env lat' of
             Some seed \<Rightarrow> (Some seed, s\<lparr>memCache := Some seed\<rparr>)
           | None \<Rightarrow> (None, s))"

definition loadCache :: "Env \<Rightarrow> real \<Rightarrow> real \<Rightarrow> TideState \<Rightarrow> TideCache option" where
  "loadCache env lat' lng' s =
     (case localStorage s (gridKey lat' lng') of
        None \<Rightarrow> None
      | Some c \<Rightarrow> if date c \<noteq> today env then None else Some c)"

definition saveCache :: "TideCache \<Rightarrow> TideState \<Rightarrow> TideState" where
  "saveCache c s = s\<lparr>localStorage := (localStorage s)(gridKey (lat c) (lng c) \<mapsto> c)\<rparr>"

subsection \<open>Cosine interpolation\<close>

text \<open>
  The inner loop of \<^verbatim>\<open>interpolateFromExtremes\<close>: the first adjacent pair with
  \<^verbatim>\<open>extremes[i].absHour <= h && extremes[i + 1].absHour >= h\<close>, if there is one.
\<close>

fun findBracket :: "CachedExtreme list \<Rightarrow> real \<Rightarrow> (CachedExtreme \<times> CachedExtreme) option" where
  "findBracket (a # b # rest) h =
     (if absHour a \<le> h \<and> absHour b \<ge> h then Some (a, b) else findBracket (b # rest) h)"
| "findBracket [a] h = None"
| "findBracket [] h = None"

definition easeLevel :: "CachedExtreme \<Rightarrow> CachedExtreme \<Rightarrow> real \<Rightarrow> real" where
  "easeLevel before after h =
     (let span = absHour after - absHour before
      in if span \<le> 0 then level before
         else
           let t = (h - absHour before) / span;
               cos' = (1 - cos (t * pi)) / 2
           in toFixed 2 (level before + (level after - level before) * cos'))"

text \<open>
  \<^verbatim>\<open>before\<close> and \<^verbatim>\<open>after\<close> start as the first and the last extreme and are replaced by
  the first bracketing pair, if there is one.
\<close>

definition levelAt :: "CachedExtreme list \<Rightarrow> real \<Rightarrow> real" where
  "levelAt es h =
     (let (before, after) =
            (case findBracket es h of Some p \<Rightarrow> p | None \<Rightarrow> (es ! 0, es ! (length es - 1)))
      in easeLevel before after h)"

definition interpolateFromExtremes :: "CachedExtreme list \<Rightarrow> SeaLevel list" where
  "interpolateFromExtremes es =
     (if length es < 2 then []
      else map (\<lambda>h. \<lparr>absHour = real h, level = levelAt es (real h)\<rparr>) [0..<7 * 24])"

subsection \<open>fetchTideData\<close>

text \<open>
  \<^verbatim>\<open>fetchTideData\<close> up to its first suspension: it either resolves at once with a flag,
  or returns a promise, the one in flight or a new one whose \<^verbatim>\<open>doFetch\<close> has issued its
  network request.
\<close>

datatype fetchResult = Resolved bool | Awaits nat

definition fetchTideData :: "Env \<Rightarrow> real \<Rightarrow> real \<Rightarrow> TideState \<Rightarrow> fetchResult \<times> TideState" where
  "fetchTideData env lat' lng' s =
     (if cacheCovers env lat' lng' s
      then (Resolved (case memCache s of Some c \<Rightarrow> seaLevels c \<noteq> [] | None \<Rightarrow> False), s)
      else case loadCache env lat' lng' s of
        Some cached \<Rightarrow> (Resolved (seaLevels cached \<noteq> []), s\<lparr>memCache := Some cached\<rparr>)
      | None \<Rightarrow>
         (case findSeed env lat' lng' of
            Some seed \<Rightarrow> (Resolved True, s\<lparr>memCache := Some seed\<rparr>)
          | None \<Rightarrow>
             if apiKey s = [] then (Resolved False, s)
             else
               let gk = gridKey lat' lng' in
               case inflight s of
                 Some p \<Rightarrow>
                   if inflightGrid s = Some gk then (Awaits p, s)
                   else (Awaits (issued s),
                         s\<lparr>inflightGrid := Some gk, inflight := Some (issued s),
                           pending := pending s @ [(issued s, gk)], issued := issued s + 1\<rparr>)
               | None \<Rightarrow>
                   (Awaits (issued s),
                    s\<lparr>inflightGrid := Some gk, inflight := Some (issued s),
                      pending := pending s @ [(issued s, gk)], issued := issued s + 1\<rparr>)))"

text \<open>
  The rest of \<^verbatim>\<open>doFetch\<close>, run when its network request settles: the request was
  rejected (or the body could not be read), answered with a status that is not ok, or
  answered with the events of \<^verbatim>\<open>json.data\<close>.
\<close>

record RawExtreme =
  time :: real
  height :: "real option"
  rawType :: string

datatype response = Rejected | NotOk nat | Ok "RawExtreme list"

definition parseExtremes :: "real \<Rightarrow> RawExtreme list \<Rightarrow> CachedExtreme list" where
  "parseExtremes base raw =
     map (\<lambda>e. \<lparr>absHour = toFixed 3 ((time e - base) / 3600000),
               level = toFixed 1 (case height e of Some x \<Rightarrow> x | None \<Rightarrow> 0),
               type = (if rawType e = ''high'' then high else low)\<rparr>)
       (filter (\<lambda>e. (time e - base) / 3600000 \<ge> 0) raw)"

definition doFetch_settle ::
  "Env \<Rightarrow> real \<Rightarrow> real \<Rightarrow> nat \<Rightarrow> response \<Rightarrow> TideState \<Rightarrow> bool \<times> TideState" where
  "doFetch_settle env lat' lng' p resp s =
     (let (r, s1) =
            (case resp of
               Ok raw \<Rightarrow>
                 let es = parseExtremes (baseMs env) raw;
                     cache = \<lparr>date = today env, lat = lat', lng = lng',
                              seaLevels = interpolateFromExtremes es, extremes = es\<rparr>
                 in (True, saveCache cache (s\<lparr>memCache := Some cache\<rparr>))
             | NotOk status \<Rightarrow> (False, s)
             | Rejected \<Rightarrow> (False, s))
      in (r, s1\<lparr>inflight := None, inflightGrid := None,
               pending := filter (\<lambda>q. fst q \<noteq> p) (pending s1)\<rparr>))"

subsection \<open>Simulation fallback\<close>

text \<open>The remainder operator \<^verbatim>\<open>%\<close> on numbers: the quotient is truncated towards zero.\<close>

definition js_rem :: "real \<Rightarrow> real \<Rightarrow> real" where
  "js_rem a b = a - b * of_int (if a / b \<ge> 0 then \<lfloor>a / b\<rfloor> else \<lceil>a / b\<rceil>)"

definition LUNAR_SHIFT_RAD :: real where
  "LUNAR_SHIFT_RAD = (50.47 / (24 * 60)) * 2 * pi"

definition SPRING_NEAP_PERIOD :: real where
  "SPRING_NEAP_PERIOD = 14.76"

definition getDayOfYear :: "Env \<Rightarrow> real" where
  "getDayOfYear env = of_int \<lfloor>(of_int (nowMs env) - of_int (yearStartMs env)) / (86400000 :: real)\<rfloor>"

definition tideRaw :: "Env \<Rightarrow> real \<Rightarrow> real \<Rightarrow> real \<Rightarrow> real" where
  "tideRaw env dayOffset hour' lat' =
     (let locPhase = js_rem (lat' * 7.3 + 41.7) 360 * pi / 180;
          lunarPhase = dayOffset * LUNAR_SHIFT_RAD + locPhase;
          dayOfYear = getDayOfYear env + dayOffset;
          springNeap = 0.5 + 0.5 * cos ((dayOfYear / SPRING_NEAP_PERIOD) * 2 * pi);
          mainAmp = 1.2 + 0.8 * springNeap;
          diurnalAmp = mainAmp * 0.18;
          MSL = 2.1;
          t = (hour' / 12.42) * 2 * pi + lunarPhase;
          m2 = mainAmp * cos t;
          k1 = diurnalAmp * cos ((hour' / 24) * 2 * pi + lunarPhase * 0.52 + 0.8);
          m4 = mainAmp * 0.06 * cos (2 * t + 0.4)
      in MSL + m2 + k1 + m4)"

subsection \<open>The synchronous tide query\<close>

text \<open>
  The search loop of \<^verbatim>\<open>tideAt\<close>: \<^verbatim>\<open>best\<close> starts at the first sample and is replaced
  by a sample that is strictly nearer to the target hour.
\<close>

definition nearest :: "SeaLevel list \<Rightarrow> real \<Rightarrow> SeaLevel \<times> real" where
  "nearest sls target =
     fold (\<lambda>sl (best, bestDist).
             let d = \<bar>absHour sl - target\<bar> in if d < bestDist then (sl, d) else (best, bestDist))
       sls (sls ! 0, \<bar>absHour (sls ! 0) - target\<bar>)"

definition tideAt :: "Env \<Rightarrow> real \<Rightarrow> real \<Rightarrow> real \<Rightarrow> TideState \<Rightarrow> real \<times> TideState" where
  "tideAt env dayOffset hour' lat' s =
     (let (cache, s1) = ensureCache env lat' s;
          simulated = toFixed 2 (tideRaw env dayOffset hour' lat')
      in (case cache of
            Some c \<Rightarrow>
              if seaLevels c \<noteq> [] then
                (let (best, bestDist) = nearest (seaLevels c) (dayOffset * 24 + hour')
                 in if bestDist \<le> 1.5 then level best else simulated)
              else simulated
          | None \<Rightarrow> simulated,
          s1))"

section \<open>Sample inputs\<close>

abbreviation sampleDay :: DayForecast where
  "sampleDay \<equiv>
     \<lparr>DayForecast.day = ''Mon'', DayForecast.date = ''2024-06-03'', DayForecast.wind = 15,
      DayForecast.gust = 20, DayForecast.temp = 21, DayForecast.rain = 0,
      DayForecast.cloud = 0, DayForecast.tideHigh = 0, DayForecast.tideLow = 0,
      DayForecast.tideRange = 0, DayForecast.dirDeg = 0, DayForecast.spread = None,
      DayForecast.confidence = None, DayForecast.modelAgreement = None\<rparr>"

abbreviation sampleHour :: HourForecast where
  "sampleHour \<equiv>
     \<lparr>HourForecast.hour = ''00:00'', HourForecast.wind = 15, HourForecast.gust = 20,
      HourForecast.temp = 21, HourForecast.rain = 0, HourForecast.dirDeg = 0,
      HourForecast.tide = 2, HourForecast.spread = None, HourForecast.confidence = None\<rparr>"

abbreviation onlyECMWF :: "'a \<Rightarrow> string \<Rightarrow> error + 'a" where
  "onlyECMWF v \<equiv> (\<lambda>m. if m = ''ECMWF'' then Inr v else Inl (Error ''503''))"


abbreviation sampleEnv :: Env where
  "sampleEnv \<equiv>
     \<lparr>today = ''2024-06-03'', baseMs = 1717387200000, nowMs = 1717430400000,
      yearStartMs = 1703998800000, seeds = []\<rparr>"

abbreviation sampleState :: TideState where
  "sampleState \<equiv>
     \<lparr>memCache = None, apiKey = ''key'', inflight = None, inflightGrid = None,
      localStorage = Map.empty, pending = [], issued = 0\<rparr>"

abbreviation staleCache :: TideCache where
  "staleCache \<equiv>
     \<lparr>date = ''2024-06-02'', lat = 46.8, lng = - 71.2,
      seaLevels = [\<lparr>absHour = 0, level = 9.9\<rparr>], extremes = []\<rparr>"

section \<open>Properties of the blend utilities\<close>

lemma weightOf_pos: "0 < weightOf m"
  by (simp add: weightOf_def MODEL_WEIGHT_def)

section \<open>The trimmed weighted mean\<close>

lemma sumV_sum_list: "sumV values weights idx = (\<Sum>i\<leftarrow>idx. values ! i * weights ! i)"
proof -
  have "fold (\<lambda>i s. s + values ! i * weights ! i) idx a = a + (\<Sum>i\<leftarrow>idx. values ! i * weights ! i)" for a
    by (induction idx arbitrary: a) (simp_all add: algebra_simps)
  then show ?thesis by (simp add: sumV_def)
qed

lemma sumW_sum_list: "sumW weights idx = (\<Sum>i\<leftarrow>idx. weights ! i)"
proof -
  have "fold (\<lambda>i s. s + weights ! i) idx a = a + (\<Sum>i\<leftarrow>idx. weights ! i)" for a
    by (induction idx arbitrary: a) (simp_all add: algebra_simps)
  then show ?thesis by (simp add: sumW_def)
qed

lemma trim_fold_inv:
  "k \<le> length values \<Longrightarrow>
   fold (trimStep values m) [0..<k] (0, 0) = (d, i) \<Longrightarrow>
   0 \<le> d \<and> (\<forall>j<k. \<bar>values ! j - m\<bar> \<le> d) \<and>
   ((i = 0 \<and> d = 0) \<or> (i < k \<and> d = \<bar>values ! i - m\<bar>))"
proof (induction k arbitrary: d i)
  case 0
  then show ?case by simp
next
  case (Suc k)
  obtain d0 i0 where prev: "fold (trimStep values m) [0..<k] (0, 0) = (d0, i0)"
    by (cases "fold (trimStep values m) [0..<k] (0, 0)") simp
  from Suc.prems have kle: "k \<le> length values" by simp
  note ih = Suc.IH [OF kle prev]
  from Suc.prems(2) prev have step: "trimStep values m k (d0, i0) = (d, i)"
    by simp
  show ?case
  proof (cases "\<bar>values ! k - m\<bar> > d0")
    case True
    with step have "d = \<bar>values ! k - m\<bar>" "i = k"
      by (auto simp: trimStep_def Let_def)
    with ih True show ?thesis
      by (auto simp: less_Suc_eq)
  next
    case False
    with step have "d = d0" "i = i0"
      by (auto simp: trimStep_def Let_def)
    with ih False show ?thesis
      by (auto simp: less_Suc_eq)
  qed
qed

lemma maxIdx_lt: "0 < length values \<Longrightarrow> maxIdx values m < length values"
proof -
  assume pos: "0 < length values"
  obtain d i where f: "fold (trimStep values m) [0..<length values] (0, 0) = (d, i)"
    by (cases "fold (trimStep values m) [0..<length values] (0, 0)") simp
  from trim_fold_inv [OF le_refl f] pos have "i < length values" by auto
  with f show ?thesis by (simp add: maxIdx_def)
qed


lemma length_drop_index:
  "k < n \<Longrightarrow> length (filter (\<lambda>i. i \<noteq> k) [0..<n]) = n - 1"
proof -
  assume k: "k < n"
  have "length (filter (\<lambda>i. i \<noteq> k) [0..<n]) = card {i \<in> set [0..<n]. i \<noteq> k}"
    by (simp add: distinct_length_filter Int_def conj_commute)
  also have "{i \<in> set [0..<n]. i \<noteq> k} = {0..<n} - {k}" by auto
  also have "card ({0..<n} - {k}) = n - 1" using k by simp
  finally show ?thesis .
qed



section \<open>The blend paths\<close>

lemma succeededOf_Nil_iff:
  "succeededOf single = [] \<longleftrightarrow> (\<forall>m\<in>set BASE_MODELS. isl (single m))"
proof -
  have "List.map_filter (\<lambda>m. case single m of Inr v \<Rightarrow> Some (m, v) | Inl e \<Rightarrow> None) ms = []
      \<longleftrightarrow> (\<forall>m\<in>set ms. isl (single m))" for ms
    by (induction ms) (auto simp: List.map_filter_simps split: sum.splits)
  then show ?thesis by (simp add: succeededOf_def)
qed

lemma succeededOf_models:
  "map fst (succeededOf single) = filter (\<lambda>m. \<not> isl (single m)) BASE_MODELS"
proof -
  have "map fst (List.map_filter (\<lambda>m. case single m of Inr v \<Rightarrow> Some (m, v) | Inl e \<Rightarrow> None) ms)
      = filter (\<lambda>m. \<not> isl (single m)) ms" for ms
    by (induction ms) (auto simp: List.map_filter_simps split: sum.splits)
  then show ?thesis by (simp add: succeededOf_def)
qed

lemma blendDay_frame:
  "DayForecast.day (blendDay succeeded i d) = DayForecast.day d \<and>
   DayForecast.date (blendDay succeeded i d) = DayForecast.date d \<and>
   DayForecast.cloud (blendDay succeeded i d) = DayForecast.cloud d \<and>
   DayForecast.tideHigh (blendDay succeeded i d) = DayForecast.tideHigh d \<and>
   DayForecast.tideLow (blendDay succeeded i d) = DayForecast.tideLow d \<and>
   DayForecast.tideRange (blendDay succeeded i d) = DayForecast.tideRange d"
  by (simp add: blendDay_def Let_def)

lemma blendHour_frame:
  "i < length (snd (hd succeeded)) \<Longrightarrow> h = snd (hd succeeded) ! i \<Longrightarrow>
   HourForecast.hour (blendHour succeeded i h) = HourForecast.hour h \<and>
   HourForecast.tide (blendHour succeeded i h) = HourForecast.tide h"
  by (simp add: blendHour_def Let_def)

lemma daily_blend_Inr:
  "fetchDailyForecast single ''BLEND'' = Inr ys \<Longrightarrow>
   succeededOf single \<noteq> [] \<and>
   ys = map (\<lambda>(i, d). blendDay (succeededOf single) i d)
          (List.enumerate 0 (snd (hd (succeededOf single))))"
  by (auto simp: fetchDailyForecast_def Let_def split: if_splits)

lemma hourly_blend_Inr:
  "fetchHourlyForecast single ''BLEND'' dayOff = Inr ys \<Longrightarrow>
   succeededOf (\<lambda>m. single m dayOff) \<noteq> [] \<and>
   ys = map (\<lambda>(i, h). blendHour (succeededOf (\<lambda>m. single m dayOff)) i h)
          (List.enumerate 0 (snd (hd (succeededOf (\<lambda>m. single m dayOff)))))"
  by (auto simp: fetchHourlyForecast_def Let_def split: if_splits)

text \<open>
  C6. With model \<^verbatim>\<open>BLEND\<close>, \<^verbatim>\<open>fetchDailyForecast\<close> and \<^verbatim>\<open>fetchHourlyForecast\<close>
  reject with the error "All models failed" exactly when every base-model fetch has failed;
  when at least one has succeeded they return the blend over exactly the models that
  succeeded, in the order of \<^verbatim>\<open>BASE_MODELS\<close>.
\<close>

theorem blend_fails_iff_all_models_fail:
  "(fetchDailyForecast single ''BLEND'' = Inl (Error ''All models failed'')
      \<longleftrightarrow> (\<forall>m\<in>set BASE_MODELS. isl (single m))) \<and>
   ((\<exists>m\<in>set BASE_MODELS. \<not> isl (single m)) \<longrightarrow>
      map fst (succeededOf single) = filter (\<lambda>m. \<not> isl (single m)) BASE_MODELS \<and>
      fetchDailyForecast single ''BLEND'' =
        Inr (map (\<lambda>(i, d). blendDay (succeededOf single) i d)
               (List.enumerate 0 (snd (hd (succeededOf single)))))) \<and>
   (fetchHourlyForecast hsingle ''BLEND'' dayOff = Inl (Error ''All models failed'')
      \<longleftrightarrow> (\<forall>m\<in>set BASE_MODELS. isl (hsingle m dayOff))) \<and>
   ((\<exists>m\<in>set BASE_MODELS. \<not> isl (hsingle m dayOff)) \<longrightarrow>
      map fst (succeededOf (\<lambda>m. hsingle m dayOff)) =
        filter (\<lambda>m. \<not> isl (hsingle m dayOff)) BASE_MODELS \<and>
      fetchHourlyForecast hsingle ''BLEND'' dayOff =
        Inr (map (\<lambda>(i, h). blendHour (succeededOf (\<lambda>m. hsingle m dayOff)) i h)
               (List.enumerate 0 (snd (hd (succeededOf (\<lambda>m. hsingle m dayOff)))))))"
proof (intro conjI impI)
  show "fetchDailyForecast single ''BLEND'' = Inl (Error ''All models failed'')
      \<longleftrightarrow> (\<forall>m\<in>set BASE_MODELS. isl (single m))"
    by (simp add: fetchDailyForecast_def Let_def succeededOf_Nil_iff)
next
  assume "\<exists>m\<in>set BASE_MODELS. \<not> isl (single m)"
  then have "succeededOf single \<noteq> []" by (simp add: succeededOf_Nil_iff)
  then show "fetchDailyForecast single ''BLEND'' =
        Inr (map (\<lambda>(i, d). blendDay (succeededOf single) i d)
               (List.enumerate 0 (snd (hd (succeededOf single)))))"
    by (simp add: fetchDailyForecast_def Let_def)
next
  show "fetchHourlyForecast hsingle ''BLEND'' dayOff = Inl (Error ''All models failed'')
      \<longleftrightarrow> (\<forall>m\<in>set BASE_MODELS. isl (hsingle m dayOff))"
    by (simp add: fetchHourlyForecast_def Let_def succeededOf_Nil_iff)
next
  assume "\<exists>m\<in>set BASE_MODELS. \<not> isl (hsingle m dayOff)"
  then have "succeededOf (\<lambda>m. hsingle m dayOff) \<noteq> []" by (simp add: succeededOf_Nil_iff)
  then show "fetchHourlyForecast hsingle ''BLEND'' dayOff =
        Inr (map (\<lambda>(i, h). blendHour (succeededOf (\<lambda>m. hsingle m dayOff)) i h)
               (List.enumerate 0 (snd (hd (succeededOf (\<lambda>m. hsingle m dayOff))))))"
    by (simp add: fetchHourlyForecast_def Let_def)
qed (rule succeededOf_models)+

text \<open>
  C10. A blended point keeps the fields the blend does not recompute, as they are in the
  first succeeded model's point at the same index: day, date, cloud, tideHigh, tideLow and
  tideRange of a daily point, the hour label and the tide of an hourly point; and the
  blended sequence is as long as the first succeeded model's sequence.
\<close>

theorem blend_preserves_unblended_fields:
  "(fetchDailyForecast single ''BLEND'' = Inr ys \<longrightarrow>
      (let first = snd (hd (succeededOf single)) in
       length ys = length first \<and>
       (\<forall>i<length ys.
          DayForecast.day (ys ! i) = DayForecast.day (first ! i) \<and>
          DayForecast.date (ys ! i) = DayForecast.date (first ! i) \<and>
          DayForecast.cloud (ys ! i) = DayForecast.cloud (first ! i) \<and>
          DayForecast.tideHigh (ys ! i) = DayForecast.tideHigh (first ! i) \<and>
          DayForecast.tideLow (ys ! i) = DayForecast.tideLow (first ! i) \<and>
          DayForecast.tideRange (ys ! i) = DayForecast.tideRange (first ! i)))) \<and>
   (fetchHourlyForecast hsingle ''BLEND'' dayOff = Inr hs \<longrightarrow>
      (let first = snd (hd (succeededOf (\<lambda>m. hsingle m dayOff))) in
       length hs = length first \<and>
       (\<forall>i<length hs.
          HourForecast.hour (hs ! i) = HourForecast.hour (first ! i) \<and>
          HourForecast.tide (hs ! i) = HourForecast.tide (first ! i))))"
proof (intro conjI impI)
  assume "fetchDailyForecast single ''BLEND'' = Inr ys"
  from daily_blend_Inr [OF this]
  have ys: "ys = map (\<lambda>(i, d). blendDay (succeededOf single) i d)
          (List.enumerate 0 (snd (hd (succeededOf single))))" by simp
  show "let first = snd (hd (succeededOf single)) in
       length ys = length first \<and>
       (\<forall>i<length ys.
          DayForecast.day (ys ! i) = DayForecast.day (first ! i) \<and>
          DayForecast.date (ys ! i) = DayForecast.date (first ! i) \<and>
          DayForecast.cloud (ys ! i) = DayForecast.cloud (first ! i) \<and>
          DayForecast.tideHigh (ys ! i) = DayForecast.tideHigh (first ! i) \<and>
          DayForecast.tideLow (ys ! i) = DayForecast.tideLow (first ! i) \<and>
          DayForecast.tideRange (ys ! i) = DayForecast.tideRange (first ! i))"
    unfolding Let_def ys by (simp add: nth_enumerate_eq blendDay_frame)
next
  assume "fetchHourlyForecast hsingle ''BLEND'' dayOff = Inr hs"
  from hourly_blend_Inr [OF this]
  have hs: "hs = map (\<lambda>(i, h). blendHour (succeededOf (\<lambda>m. hsingle m dayOff)) i h)
          (List.enumerate 0 (snd (hd (succeededOf (\<lambda>m. hsingle m dayOff)))))" by simp
  show "let first = snd (hd (succeededOf (\<lambda>m. hsingle m dayOff))) in
       length hs = length first \<and>
       (\<forall>i<length hs.
          HourForecast.hour (hs ! i) = HourForecast.hour (first ! i) \<and>
          HourForecast.tide (hs ! i) = HourForecast.tide (first ! i))"
    unfolding Let_def hs by (simp add: nth_enumerate_eq blendHour_frame)
qed


lemma blendValues_single:
  "blendValues [v] [m] trim = \<lparr>mean = v, spread = 0, confidence = 1 / 2\<rparr>"
  by (simp add: blendValues_def)

lemma circularConcentration_single: "circularConcentration [a] = 1"
  by (simp add: circularConcentration_def)

lemma Math_round_70: "Math_round (((1 / 2) * (6 / 10) + 1 * (4 / 10)) * 100) / 100 = 7 / 10"
  by (simp add: Math_round_def)

lemma blendDay_single_conf:
  "DayForecast.spread (blendDay [(m, data)] i d) = Some 0 \<and>
   DayForecast.confidence (blendDay [(m, data)] i d) = Some (7 / 10)"
  using Math_round_70
  by (simp add: blendDay_def Let_def blendValues_single circularConcentration_single)

lemma blendHour_single_conf:
  "HourForecast.spread (blendHour [(m, data)] i h) = Some 0 \<and>
   HourForecast.confidence (blendHour [(m, data)] i h) = Some (7 / 10)"
  using Math_round_70
  by (simp add: blendHour_def Let_def blendValues_single circularConcentration_single)

lemma length_one_singleton: "length xs = 1 \<Longrightarrow> \<exists>m data. xs = [(m, data)]"
  by (cases xs) auto

text \<open>
  C3, as the code has it. When exactly one base model has succeeded, every point of the
  blended sequence (daily or hourly) has spread 0 and confidence 0.7: the wind blend of a
  single value has confidence 0.5 and spread 0, the direction agreement of a single model
  is 1, and the point's confidence is \<open>0.6 * 0.5 + 0.4 * 1\<close> rounded to two decimals.
\<close>

theorem single_model_blend_confidence:
  "(length (succeededOf single) = 1 \<longrightarrow>
      (\<exists>ys. fetchDailyForecast single ''BLEND'' = Inr ys \<and>
            length ys = length (snd (hd (succeededOf single))) \<and>
            (\<forall>i<length ys. DayForecast.spread (ys ! i) = Some 0 \<and>
                            DayForecast.confidence (ys ! i) = Some (7 / 10)))) \<and>
   (length (succeededOf (\<lambda>m. hsingle m dayOff)) = 1 \<longrightarrow>
      (\<exists>hs. fetchHourlyForecast hsingle ''BLEND'' dayOff = Inr hs \<and>
            length hs = length (snd (hd (succeededOf (\<lambda>m. hsingle m dayOff)))) \<and>
            (\<forall>i<length hs. HourForecast.spread (hs ! i) = Some 0 \<and>
                            HourForecast.confidence (hs ! i) = Some (7 / 10)))) \<and>
   confidence (blendValues [v] [m] trim) = 1 / 2 \<and>
   spread (blendValues [v] [m] trim) = 0 \<and>
   circularConcentration [a] = 1"
proof (intro conjI impI)
  assume "length (succeededOf single) = 1"
  then obtain m data where s: "succeededOf single = [(m, data)]"
    using length_one_singleton by blast
  have "fetchDailyForecast single ''BLEND'' =
      Inr (map (\<lambda>(i, d). blendDay [(m, data)] i d) (List.enumerate 0 data))"
    by (simp add: fetchDailyForecast_def Let_def s)
  then show "\<exists>ys. fetchDailyForecast single ''BLEND'' = Inr ys \<and>
            length ys = length (snd (hd (succeededOf single))) \<and>
            (\<forall>i<length ys. DayForecast.spread (ys ! i) = Some 0 \<and>
                            DayForecast.confidence (ys ! i) = Some (7 / 10))"
    by (simp add: s nth_enumerate_eq blendDay_single_conf)
next
  assume "length (succeededOf (\<lambda>m. hsingle m dayOff)) = 1"
  then obtain m data where s: "succeededOf (\<lambda>m. hsingle m dayOff) = [(m, data)]"
    using length_one_singleton by blast
  have "fetchHourlyForecast hsingle ''BLEND'' dayOff =
      Inr (map (\<lambda>(i, h). blendHour [(m, data)] i h) (List.enumerate 0 data))"
    by (simp add: fetchHourlyForecast_def Let_def s)
  then show "\<exists>hs. fetchHourlyForecast hsingle ''BLEND'' dayOff = Inr hs \<and>
            length hs = length (snd (hd (succeededOf (\<lambda>m. hsingle m dayOff)))) \<and>
            (\<forall>i<length hs. HourForecast.spread (hs ! i) = Some 0 \<and>
                            HourForecast.confidence (hs ! i) = Some (7 / 10))"
    by (simp add: s nth_enumerate_eq blendHour_single_conf)
qed (simp_all add: blendValues_single circularConcentration_single)

lemma succeededOf_only_ECMWF:
  "succeededOf (onlyECMWF v) = [(''ECMWF'', v)]"
  by (simp add: succeededOf_def BASE_MODELS_def List.map_filter_simps)

lemma succeededOf_none: "succeededOf (\<lambda>m. Inl (Error ''503'')) = []"
  by (simp add: succeededOf_def BASE_MODELS_def List.map_filter_simps)

text \<open>
  C3 as stated fails: with ECMWF the only model that succeeds, the one point of the daily
  blend has confidence 0.7, not 0.5.
\<close>

theorem single_model_blend_confidence_counterexample:
  "map fst (succeededOf (onlyECMWF [sampleDay])) = [''ECMWF''] \<and>
   map_sum id (map DayForecast.confidence)
     (fetchDailyForecast (onlyECMWF [sampleDay]) ''BLEND'') = Inr [Some (7 / 10)] \<and>
   Some (7 / 10) \<noteq> Some (1 / 2 :: real)"
  by (simp add: succeededOf_only_ECMWF fetchDailyForecast_def Let_def enumerate_simps
      blendDay_single_conf)

theorem single_model_blend_confidence_witness:
  "length (succeededOf (onlyECMWF [sampleDay])) = 1 \<and>
   (\<exists>ys. fetchDailyForecast (onlyECMWF [sampleDay]) ''BLEND'' = Inr ys \<and>
         length ys = length (snd (hd (succeededOf (onlyECMWF [sampleDay])))) \<and>
         (\<forall>i<length ys. DayForecast.spread (ys ! i) = Some 0 \<and>
                         DayForecast.confidence (ys ! i) = Some (7 / 10)))"
proof -
  have h: "length (succeededOf (onlyECMWF [sampleDay])) = 1"
    by (simp add: succeededOf_only_ECMWF)
  note c = single_model_blend_confidence [of "onlyECMWF [sampleDay]",
      THEN conjunct1, rule_format, OF h]
  show ?thesis by (rule conjI [OF h c])
qed

theorem blend_fails_iff_all_models_fail_witness:
  "fetchDailyForecast (\<lambda>m. Inl (Error ''503'')) ''BLEND'' = Inl (Error ''All models failed'') \<and>
   fetchDailyForecast (onlyECMWF [sampleDay]) ''BLEND'' =
     Inr (map (\<lambda>(i, d). blendDay [(''ECMWF'', [sampleDay])] i d) (List.enumerate 0 [sampleDay])) \<and>
   fetchHourlyForecast (\<lambda>m d. Inl (Error ''503'')) ''BLEND'' 0 = Inl (Error ''All models failed'') \<and>
   fetchHourlyForecast (\<lambda>m d. onlyECMWF [sampleHour] m) ''BLEND'' 0 =
     Inr (map (\<lambda>(i, h). blendHour [(''ECMWF'', [sampleHour])] i h) (List.enumerate 0 [sampleHour]))"
proof -
  note t1 = blend_fails_iff_all_models_fail
    [of "\<lambda>m. Inl (Error ''503'')" "\<lambda>m d. Inl (Error ''503'')" 0]
  note t2 = blend_fails_iff_all_models_fail
    [of "onlyECMWF [sampleDay]" "\<lambda>m d. onlyECMWF [sampleHour] m" 0]
  have e: "\<exists>m\<in>set BASE_MODELS. \<not> isl (onlyECMWF [sampleDay] m)"
    "\<exists>m\<in>set BASE_MODELS. \<not> isl (onlyECMWF [sampleHour] m)"
    by (simp_all add: BASE_MODELS_def)
  from t1 have a: "fetchDailyForecast (\<lambda>m. Inl (Error ''503'')) ''BLEND'' = Inl (Error ''All models failed'')"
    "fetchHourlyForecast (\<lambda>m d. Inl (Error ''503'')) ''BLEND'' 0 = Inl (Error ''All models failed'')"
    by simp_all
  from t2 e have b: "fetchDailyForecast (onlyECMWF [sampleDay]) ''BLEND'' =
     Inr (map (\<lambda>(i, d). blendDay [(''ECMWF'', [sampleDay])] i d) (List.enumerate 0 [sampleDay]))"
    "fetchHourlyForecast (\<lambda>m d. onlyECMWF [sampleHour] m) ''BLEND'' 0 =
     Inr (map (\<lambda>(i, h). blendHour [(''ECMWF'', [sampleHour])] i h) (List.enumerate 0 [sampleHour]))"
    by (simp_all add: succeededOf_only_ECMWF)
  from a b show ?thesis by simp
qed

theorem blend_preserves_unblended_fields_witness:
  "fetchDailyForecast (onlyECMWF [sampleDay]) ''BLEND'' =
     Inr [blendDay [(''ECMWF'', [sampleDay])] 0 sampleDay] \<and>
   DayForecast.day (blendDay [(''ECMWF'', [sampleDay])] 0 sampleDay) = ''Mon'' \<and>
   DayForecast.date (blendDay [(''ECMWF'', [sampleDay])] 0 sampleDay) = ''2024-06-03'' \<and>
   fetchHourlyForecast (\<lambda>m d. onlyECMWF [sampleHour] m) ''BLEND'' 0 =
     Inr [blendHour [(''ECMWF'', [sampleHour])] 0 sampleHour] \<and>
   HourForecast.hour (blendHour [(''ECMWF'', [sampleHour])] 0 sampleHour) = ''00:00'' \<and>
   HourForecast.tide (blendHour [(''ECMWF'', [sampleHour])] 0 sampleHour) = 2"
proof -
  have d: "fetchDailyForecast (onlyECMWF [sampleDay]) ''BLEND'' =
     Inr [blendDay [(''ECMWF'', [sampleDay])] 0 sampleDay]"
    by (simp add: fetchDailyForecast_def Let_def succeededOf_only_ECMWF enumerate_simps)
  have h: "fetchHourlyForecast (\<lambda>m d. onlyECMWF [sampleHour] m) ''BLEND'' 0 =
     Inr [blendHour [(''ECMWF'', [sampleHour])] 0 sampleHour]"
    by (simp add: fetchHourlyForecast_def Let_def succeededOf_only_ECMWF enumerate_simps)
  note t = blend_preserves_unblended_fields
    [of "onlyECMWF [sampleDay]" "[blendDay [(''ECMWF'', [sampleDay])] 0 sampleDay]"
        "\<lambda>m d. onlyECMWF [sampleHour] m" 0 "[blendHour [(''ECMWF'', [sampleHour])] 0 sampleHour]"]
  from t d h show ?thesis
    by (simp add: succeededOf_only_ECMWF Let_def)
qed

section \<open>The confidence of a blend\<close>

lemma fold_sq_sum_list:
  "fold (\<lambda>v s. s + (v - m)\<^sup>2) xs a = a + (\<Sum>v\<leftarrow>xs. (v - m)\<^sup>2)"
  by (induction xs arbitrary: a) (simp_all add: algebra_simps)

lemma stdAround_sum_list:
  "stdAround xs m = sqrt ((\<Sum>v\<leftarrow>xs. (v - m)\<^sup>2) / real (length xs))"
  by (simp add: stdAround_def fold_sq_sum_list)

lemma blendValues_ge2:
  assumes "2 \<le> length xs"
  shows "blendValues xs modelNames trim =
     \<lparr>mean = weightedMean xs (map weightOf modelNames) (useIdx xs (map weightOf modelNames) trim),
      spread = Math_max xs - Math_min xs,
      confidence = confidenceOf xs
        (weightedMean xs (map weightOf modelNames) (useIdx xs (map weightOf modelNames) trim))\<rparr>"
proof -
  have a: "length xs \<noteq> 0" "length xs \<noteq> 1" using assms by arith+
  show ?thesis unfolding blendValues_def Let_def using a by simp
qed

lemma blendValues_confidenceOf:
  "2 \<le> length xs \<Longrightarrow>
   confidence (blendValues xs modelNames trim) =
     confidenceOf xs (mean (blendValues xs modelNames trim))"
  by (simp add: blendValues_ge2)

lemma Math_max_Max: "xs \<noteq> [] \<Longrightarrow> Math_max xs = Max (set xs)"
  by (cases xs) (simp_all add: Math_max_def Max.set_eq_fold [symmetric])

lemma Math_min_Min: "xs \<noteq> [] \<Longrightarrow> Math_min xs = Min (set xs)"
  by (cases xs) (simp_all add: Math_min_def Min.set_eq_fold [symmetric])

lemma zero_range_all_equal:
  assumes "xs \<noteq> []" "Math_max xs - Math_min xs = 0" "v \<in> set xs"
  shows "v = Math_max xs"
proof -
  have a: "Min (set xs) \<le> v" using assms(3) by (intro Min_le) simp_all
  have b: "v \<le> Max (set xs)" using assms(3) by (intro Max_ge) simp_all
  have mm: "Max (set xs) - Min (set xs) = 0"
    using assms(2) unfolding Math_max_Max [OF assms(1)] Math_min_Min [OF assms(1)] .
  show ?thesis unfolding Math_max_Max [OF assms(1)] using a b mm by linarith
qed

lemma useIdx_subset: "set (useIdx xs ws trim) \<subseteq> {0..<length xs}"
  by (auto simp: useIdx_def Let_def)

lemma useIdx_nonempty: "2 \<le> length xs \<Longrightarrow> useIdx xs ws trim \<noteq> []"
proof -
  assume n: "2 \<le> length xs"
  show ?thesis
  proof (cases "trim \<and> 4 \<le> length xs")
    case True
    then have pos: "0 < length xs" by arith
    let ?k = "maxIdx xs (weightedMean xs ws [0..<length xs])"
    have "length (filter (\<lambda>i. i \<noteq> ?k) [0..<length xs]) = length xs - 1"
      by (rule length_drop_index [OF maxIdx_lt [OF pos]])
    with True have "length (useIdx xs ws trim) = length xs - 1"
      by (simp add: useIdx_def Let_def)
    with n show ?thesis by auto
  next
    case False
    with n show ?thesis by (auto simp: useIdx_def Let_def)
  qed
qed

lemma sum_list_pos_nonempty:
  "idx \<noteq> [] \<Longrightarrow> (\<And>i. i \<in> set idx \<Longrightarrow> 0 < f i) \<Longrightarrow> 0 < (\<Sum>i\<leftarrow>idx. (f i :: real))"
proof (induction idx)
  case Nil
  then show ?case by simp
next
  case (Cons a idx)
  show ?case
  proof (cases "idx = []")
    case True
    with Cons.prems show ?thesis by simp
  next
    case False
    have "0 < f a" using Cons.prems(2) by simp
    moreover have "0 < (\<Sum>i\<leftarrow>idx. f i)" using Cons.IH [OF False] Cons.prems(2) by simp
    ultimately show ?thesis by simp
  qed
qed

lemma weightedMean_constant:
  assumes ne: "idx \<noteq> []"
    and c: "\<And>i. i \<in> set idx \<Longrightarrow> xs ! i = c"
    and w: "\<And>i. i \<in> set idx \<Longrightarrow> 0 < ws ! i"
  shows "weightedMean xs ws idx = c"
proof -
  have "(\<Sum>i\<leftarrow>idx. xs ! i * ws ! i) = (\<Sum>i\<leftarrow>idx. c * ws ! i)"
    by (intro arg_cong [of _ _ sum_list] map_cong refl) (simp add: c)
  also have "\<dots> = c * (\<Sum>i\<leftarrow>idx. ws ! i)"
    by (rule sum_list_const_mult)
  finally have "(\<Sum>i\<leftarrow>idx. xs ! i * ws ! i) = c * (\<Sum>i\<leftarrow>idx. ws ! i)" .
  moreover have "0 < (\<Sum>i\<leftarrow>idx. ws ! i)"
    by (rule sum_list_pos_nonempty [OF ne]) (rule w)
  ultimately show ?thesis
    by (simp add: weightedMean_def sumV_sum_list sumW_sum_list)
qed

lemma confidenceOf_constant:
  assumes "\<And>v. v \<in> set xs \<Longrightarrow> v = c"
  shows "confidenceOf xs c = 1"
proof -
  have "(\<Sum>v\<leftarrow>xs. (v - c)\<^sup>2) = (\<Sum>v\<leftarrow>xs. 0)"
    by (intro arg_cong [of _ _ sum_list] map_cong refl) (simp add: assms)
  then have "(\<Sum>v\<leftarrow>xs. (v - c)\<^sup>2) = 0" by simp
  then have "stdAround xs c = 0" by (simp add: stdAround_sum_list)
  then show ?thesis by (simp add: confidenceOf_def Let_def)
qed

lemma zero_spread_confidence:
  assumes n: "2 \<le> length xs" and len: "length modelNames = length xs"
    and sp: "spread (blendValues xs modelNames trim) = 0"
  shows "confidence (blendValues xs modelNames trim) = 1"
proof -
  let ?ws = "map weightOf modelNames"
  let ?idx = "useIdx xs ?ws trim"
  let ?c = "Math_max xs"
  from n have ne: "xs \<noteq> []" by auto
  from sp have r: "Math_max xs - Math_min xs = 0"
    by (simp add: blendValues_ge2 [OF n])
  have all: "v = ?c" if "v \<in> set xs" for v
    using zero_range_all_equal [OF ne r that] .
  have inr: "i < length xs" if "i \<in> set ?idx" for i
    using useIdx_subset [of xs ?ws trim] that by auto
  have m: "weightedMean xs ?ws ?idx = ?c"
  proof (rule weightedMean_constant [OF useIdx_nonempty [OF n]])
    fix i assume i: "i \<in> set ?idx"
    show "xs ! i = ?c" using all inr [OF i] by simp
    show "0 < ?ws ! i" using inr [OF i] len by (simp add: weightOf_pos)
  qed
  have "mean (blendValues xs modelNames trim) = weightedMean xs ?ws ?idx"
    by (simp add: blendValues_ge2 [OF n])
  with m have "confidence (blendValues xs modelNames trim) = confidenceOf xs ?c"
    using blendValues_confidenceOf [OF n] by simp
  also have "\<dots> = 1" by (rule confidenceOf_constant) (rule all)
  finally show ?thesis .
qed

text \<open>
  C2, as the code has it. For at least two values the confidence of \<^verbatim>\<open>blendValues\<close>
  is \<open>clamp(1 - 2 cv, 0, 1)\<close>, where the standard deviation is taken over all the values
  (the trimmed one included, divided by their number \<open>n\<close>) around the returned mean (the
  weighted mean after trimming), and \<open>cv\<close> is that deviation divided by the mean when the
  mean is positive and the deviation itself otherwise. So \<open>cv = 0\<close> gives confidence 1,
  \<open>cv \<ge> 0.5\<close> gives confidence 0, and a zero spread gives confidence 1.
\<close>

theorem blendValues_confidence:
  "(2 \<le> length xs \<longrightarrow>
      (let b = blendValues xs modelNames trim;
           m = mean b;
           std = sqrt ((\<Sum>v\<leftarrow>xs. (v - m)\<^sup>2) / real (length xs));
           cv = (if m > 0 then std / m else std)
       in confidence b = max 0 (min 1 (1 - cv * 2)) \<and>
          (cv = 0 \<longrightarrow> confidence b = 1) \<and>
          (1 / 2 \<le> cv \<longrightarrow> confidence b = 0))) \<and>
   (2 \<le> length xs \<and> length modelNames = length xs \<and>
      spread (blendValues xs modelNames trim) = 0 \<longrightarrow>
      confidence (blendValues xs modelNames trim) = 1)"
proof (rule conjI, rule impI)
  assume n: "2 \<le> length xs"
  show "let b = blendValues xs modelNames trim;
           m = mean b;
           std = sqrt ((\<Sum>v\<leftarrow>xs. (v - m)\<^sup>2) / real (length xs));
           cv = (if m > 0 then std / m else std)
       in confidence b = max 0 (min 1 (1 - cv * 2)) \<and>
          (cv = 0 \<longrightarrow> confidence b = 1) \<and>
          (1 / 2 \<le> cv \<longrightarrow> confidence b = 0)"
    by (auto simp: Let_def blendValues_confidenceOf [OF n] confidenceOf_def stdAround_sum_list)
next
  show "2 \<le> length xs \<and> length modelNames = length xs \<and>
      spread (blendValues xs modelNames trim) = 0 \<longrightarrow>
      confidence (blendValues xs modelNames trim) = 1"
    using zero_spread_confidence by blast
qed

lemma sqrt_25: "sqrt 25 = 5"
proof -
  have "sqrt ((5::real)\<^sup>2) = 5" by (simp only: real_sqrt_abs abs_numeral)
  then show ?thesis by simp
qed

text \<open>
  C2 as stated fails: for the values 10, 10, 10, 20 with equal weights the value 20 is
  trimmed, the post-trim values 10, 10, 10 have standard deviation 0 and the confidence of
  the specification is 1, but the code takes the deviation over all four values around the
  trimmed mean 10, which is 5, so \<open>cv = 0.5\<close> and the confidence is 0.
\<close>

theorem blendValues_confidence_counterexample:
  "confidence (blendValues [10, 10, 10, 20] [''GFS'', ''GFS'', ''GFS'', ''GFS''] True) = 0 \<and>
   spec_confidence [10, 10, 10, 20] [''GFS'', ''GFS'', ''GFS'', ''GFS''] True = 1"
proof -
  have w: "map weightOf [''GFS'', ''GFS'', ''GFS'', ''GFS''] = [1, 1, 1, 1]"
    by (simp add: weightOf_def MODEL_WEIGHT_def)
  have l: "length [10, 10, 10, 20::real] = 4" by simp
  have m0: "weightedMean [10, 10, 10, 20] [1, 1, 1, 1] [0..<4] = 25 / 2"
    by (simp add: weightedMean_def sumV_def sumW_def upt_rec)
  have mi: "maxIdx [10, 10, 10, 20] (25 / 2) = 3"
    by (simp add: maxIdx_def trimStep_def upt_rec)
  have ui: "useIdx [10, 10, 10, 20] [1, 1, 1, 1] True = [0, 1, 2]"
    unfolding useIdx_def Let_def l m0 mi by (simp add: upt_rec)
  have m1: "weightedMean [10, 10, 10, 20] [1, 1, 1, 1] [0, 1, 2] = 10"
    by (simp add: weightedMean_def sumV_def sumW_def)
  have sd: "stdAround [10, 10, 10, 20] 10 = 5"
    by (simp add: stdAround_def sqrt_25)
  have c: "confidenceOf [10, 10, 10, 20] 10 = 0"
    unfolding confidenceOf_def Let_def sd by simp
  have a: "confidence (blendValues [10, 10, 10, 20] [''GFS'', ''GFS'', ''GFS'', ''GFS''] True) = 0"
    unfolding blendValues_def Let_def w ui m1 c by simp
  have pt: "postTrim [10, 10, 10, 20] [''GFS'', ''GFS'', ''GFS'', ''GFS''] True = [10, 10, 10]"
    unfolding postTrim_def w ui by simp
  have av: "average [10, 10, 10] = 10" by (simp add: average_def)
  have ps: "populationStd [10, 10, 10] = 0" unfolding populationStd_def av by simp
  have b: "spec_confidence [10, 10, 10, 20] [''GFS'', ''GFS'', ''GFS'', ''GFS''] True = 1"
    unfolding spec_confidence_def Let_def pt ps av by simp
  from a b show ?thesis by (rule conjI)
qed

theorem blendValues_confidence_witness:
  "(2 \<le> length [10, 10::real] \<and> length [''GFS'', ''ECMWF''] = length [10, 10::real] \<and>
    spread (blendValues [10, 10] [''GFS'', ''ECMWF''] False) = 0) \<and>
   confidence (blendValues [10, 10] [''GFS'', ''ECMWF''] False) = 1"
proof -
  have h: "2 \<le> length [10, 10::real] \<and> length [''GFS'', ''ECMWF''] = length [10, 10::real] \<and>
    spread (blendValues [10, 10] [''GFS'', ''ECMWF''] False) = 0"
    by (simp add: blendValues_def Let_def Math_max_def Math_min_def)
  note c = blendValues_confidence [of "[10, 10]" "[''GFS'', ''ECMWF'']" False,
      THEN conjunct2, rule_format, OF h]
  show ?thesis by (rule conjI [OF h c])
qed

section \<open>The circular mean\<close>

lemma Math_atan2_range: "- pi < Math_atan2 y x \<and> Math_atan2 y x \<le> pi"
proof -
  note b = arctan_bounded [of "y / x"]
  consider "x > 0" | "x < 0" "y \<ge> 0" | "x < 0" "y < 0" | "x = 0"
    by linarith
  then show ?thesis
  proof cases
    case 1
    with b show ?thesis by (simp add: Math_atan2_def)
  next
    case 2
    then have "y / x \<le> 0" by (simp add: divide_nonneg_neg)
    then have "arctan (y / x) \<le> 0" by simp
    with 2 b show ?thesis by (simp add: Math_atan2_def)
  next
    case 3
    then have "0 < y / x" by (simp add: divide_neg_neg)
    then have "0 < arctan (y / x)" by simp
    with 3 b show ?thesis by (simp add: Math_atan2_def)
  next
    case 4
    have "- pi < Math_atan2 y 0 \<and> Math_atan2 y 0 \<le> pi"
      unfolding Math_atan2_def using pi_gt_zero
      by (cases "y > 0"; cases "y < 0"; simp; linarith)
    with 4 show ?thesis by simp
  qed
qed

lemma Math_round_range:
  assumes "0 \<le> x" "x < 360"
  shows "0 \<le> Math_round x \<and> Math_round x \<le> 360"
proof -
  have "0 \<le> \<lfloor>x + 1 / 2\<rfloor>" using assms by (simp add: le_floor_iff)
  moreover have "\<lfloor>x + 1 / 2\<rfloor> \<le> 360" using assms by (simp add: floor_le_iff)
  ultimately show ?thesis by (simp add: Math_round_def)
qed

text \<open>
  The circular mean is the rounded angle of the weighted sum of the unit vectors, brought
  into \<open>[0, 360)\<close> before rounding; after rounding it lies in \<open>[0, 360]\<close>.
\<close>

lemma circularMeanDeg_range:
  "0 \<le> circularMeanDeg angles weights \<and> circularMeanDeg angles weights \<le> 360"
proof -
  define a where "a = Math_atan2
    (fold (\<lambda>i s. s + sin (angles ! i * pi / 180) * weights ! i) [0..<length angles] 0 /
       fold (\<lambda>i s. s + weights ! i) [0..<length angles] 0)
    (fold (\<lambda>i s. s + cos (angles ! i * pi / 180) * weights ! i) [0..<length angles] 0 /
       fold (\<lambda>i s. s + weights ! i) [0..<length angles] 0)"
  define m0 where "m0 = a * 180 / pi"
  define m1 where "m1 = (if m0 < 0 then m0 + 360 else m0)"
  have c: "circularMeanDeg angles weights = Math_round m1"
    by (simp add: circularMeanDeg_def Let_def m1_def m0_def a_def)
  have p: "0 < pi" by simp
  from Math_atan2_range [of _ _] have "- pi < a" "a \<le> pi" by (simp_all add: a_def)
  then have "- 180 < m0" "m0 \<le> 180"
    using p by (simp_all add: m0_def field_simps)
  then have "0 \<le> m1" "m1 < 360" by (auto simp: m1_def)
  from Math_round_range [OF this] c show ?thesis by simp
qed

lemma cancel_common_divisor: "k \<noteq> 0 \<Longrightarrow> (a / k) / (d / k) = a / (d::real)"
  by simp

lemma half_degree: "tan (pi / 360) = sin (pi / 180) / (cos (pi / 180) + 1)"
  using tan_half [of "pi / 360"] by simp

lemma sin_one_degree_pos: "0 < sin (pi / 180)"
  by (rule sin_gt_zero) (use pi_gt_zero in simp_all)

lemma cos_one_degree_pos: "0 < cos (pi / 180)"
  by (rule cos_gt_zero) (use pi_gt_zero in simp_all)

lemma sin_359: "sin (359 * pi / 180) = - sin (pi / 180)"
proof -
  have "359 * pi / 180 = 2 * pi - pi / 180" by simp
  then show ?thesis by (simp only: sin_2pi_minus)
qed

lemma cos_359: "cos (359 * pi / 180) = cos (pi / 180)"
proof -
  have "359 * pi / 180 = 2 * pi - pi / 180" by simp
  then show ?thesis by (simp only: cos_2pi_minus)
qed

lemma arctan_small:
  "arctan (sin (pi / 180) / (cos (pi / 180) + 13 / 10)) < pi / 360"
proof -
  let ?s = "sin (pi / 180)" and ?c = "cos (pi / 180)"
  have "?s / (?c + 13 / 10) < ?s / (?c + 1)"
    using sin_one_degree_pos cos_one_degree_pos by (simp add: frac_less2)
  then have "arctan (?s / (?c + 13 / 10)) < arctan (tan (pi / 360))"
    by (simp add: arctan_less_iff half_degree)
  also have "arctan (tan (pi / 360)) = pi / 360"
    by (rule arctan_tan) (use pi_gt_zero in simp_all)
  finally show ?thesis .
qed

text \<open>
  C5. The bound 360 is reached: when GFS (weight 1) reports 359 degrees and ECMWF (weight
  1.3) reports 0 degrees, the mean angle lies strictly between 359.5 and 360, and
  \<^verbatim>\<open>Math.round\<close>, applied after the normalisation, returns 360, which is outside
  \<open>[0, 360)\<close>.
\<close>

theorem circularMeanDeg_reaches_360:
  "map weightOf [''GFS'', ''ECMWF''] = [1, 13 / 10] \<and>
   circularMeanDeg [359, 0] [1, 13 / 10] = 360"
proof
  show "map weightOf [''GFS'', ''ECMWF''] = [1, 13 / 10]"
    by (simp add: weightOf_def MODEL_WEIGHT_def)
next
  let ?s = "sin (pi / 180)" and ?c = "cos (pi / 180)"
  define q where "q = ?s / (?c + 13 / 10)"
  have qpos: "0 < q" unfolding q_def
    using sin_one_degree_pos cos_one_degree_pos by simp
  have qs: "arctan q < pi / 360" unfolding q_def by (rule arctan_small)
  have cp: "0 < ?c + 13 / 10" using cos_one_degree_pos by simp
  have at: "Math_atan2 (- ?s / (23 / 10)) ((?c + 13 / 10) / (23 / 10)) = - arctan q"
  proof -
    have "0 < (?c + 13 / 10) / (23 / 10)" using cp by simp
    then have "Math_atan2 (- ?s / (23 / 10)) ((?c + 13 / 10) / (23 / 10))
        = arctan ((- ?s / (23 / 10)) / ((?c + 13 / 10) / (23 / 10)))"
      by (simp only: Math_atan2_def if_True)
    also have "(- ?s / (23 / 10)) / ((?c + 13 / 10) / (23 / 10)) = - ?s / (?c + 13 / 10)"
      by (rule cancel_common_divisor) simp
    also have "- ?s / (?c + 13 / 10) = - q"
      by (simp add: q_def)
    finally show ?thesis by (simp add: arctan_minus)
  qed
  define m0 where "m0 = - arctan q * 180 / pi"
  have "0 < arctan q" using qpos by simp
  then have neg: "m0 < 0" by (simp add: m0_def field_simps)
  have "arctan q * 180 < pi / 2" using qs by simp
  then have "arctan q * 180 / pi < 1 / 2" by (simp add: field_simps)
  then have lo: "- (1 / 2) < m0" by (simp add: m0_def)
  have fl: "\<lfloor>m0 + 360 + 1 / 2\<rfloor> = 360"
    by (rule floor_unique) (use neg lo in simp_all)
  have "circularMeanDeg [359, 0] [1, 13 / 10] =
      Math_round (if m0 < 0 then m0 + 360 else m0)"
  proof -
    have u: "[0..<length [359, 0::real]] = [0, 1]" by (simp add: upt_rec)
    show ?thesis
      unfolding circularMeanDeg_def Let_def u
      using at by (simp add: sin_359 cos_359 m0_def)
  qed
  also have "\<dots> = 360" using neg fl by (simp add: Math_round_def)
  finally show "circularMeanDeg [359, 0] [1, 13 / 10] = 360" .
qed

text \<open>
  The wraparound example of C5 holds on the reals: the circular mean of 350 and 10 degrees
  with equal weights is 0.
\<close>

lemma circularMeanDeg_wraparound: "circularMeanDeg [350, 10] [1, 1] = 0"
proof -
  have e: "35 * pi / 18 = 2 * pi - pi / 18" by simp
  have s: "sin (35 * pi / 18) = - sin (pi / 18)"
    unfolding e by (rule sin_2pi_minus)
  have c: "cos (35 * pi / 18) = cos (pi / 18)"
    unfolding e by (rule cos_2pi_minus)
  have cpos: "0 < cos (pi / 18)"
    by (rule cos_gt_zero) (use pi_gt_zero in simp_all)
  have at: "Math_atan2 0 (cos (pi / 18)) = 0"
    using cpos by (simp add: Math_atan2_def)
  have u: "[0..<length [350, 10::real]] = [0, 1]" by (simp add: upt_rec)
  show ?thesis
    unfolding circularMeanDeg_def Let_def u
    by (simp add: s c at Math_round_def)
qed

section \<open>Tide interpolation\<close>





lemma interpolate_length:
  "2 \<le> length es \<Longrightarrow> length (interpolateFromExtremes es) = 7 * 24"
  by (simp add: interpolateFromExtremes_def)











section \<open>Tide fetching and the memory cache\<close>

lemma gridKey_quebec: "gridKey 46.8 (- 71.2) = (156, - 237)"
  by (simp add: gridKey_def)

lemma gridKey_cabarete: "gridKey 19.75 (- 70.41) = (66, - 235)"
  by (simp add: gridKey_def)

lemma fetch_quebec_first:
  "fetchTideData sampleEnv 46.8 (- 71.2) sampleState =
     (Awaits 0, sampleState\<lparr>inflightGrid := Some (156, - 237), inflight := Some 0,
                  pending := [(0, (156, - 237))], issued := 1\<rparr>)"
  by (simp add: fetchTideData_def cacheCovers_def loadCache_def findSeed_def gridKey_def Let_def)

lemma fetch_cabarete_second:
  "fetchTideData sampleEnv 19.75 (- 70.41)
     (sampleState\<lparr>inflightGrid := Some (156, - 237), inflight := Some 0,
                  pending := [(0, (156, - 237))], issued := 1\<rparr>) =
     (Awaits 1, sampleState\<lparr>inflightGrid := Some (66, - 235), inflight := Some 1,
                  pending := [(0, (156, - 237)), (1, (66, - 235))], issued := 2\<rparr>)"
  by (simp add: fetchTideData_def cacheCovers_def loadCache_def findSeed_def gridKey_def Let_def)

lemma fetch_quebec_third:
  "fetchTideData sampleEnv 46.8 (- 71.2)
     (sampleState\<lparr>inflightGrid := Some (66, - 235), inflight := Some 1,
                  pending := [(0, (156, - 237)), (1, (66, - 235))], issued := 2\<rparr>) =
     (Awaits 2, sampleState\<lparr>inflightGrid := Some (156, - 237), inflight := Some 2,
                  pending := [(0, (156, - 237)), (1, (66, - 235)), (2, (156, - 237))],
                  issued := 3\<rparr>)"
  by (simp add: fetchTideData_def cacheCovers_def loadCache_def findSeed_def gridKey_def Let_def)

text \<open>
  C7. With a key configured and nothing cached, a call for a spot near Quebec issues
  request 0, a call for Cabarete issues request 1 and overwrites the single in-flight
  marker, and a second call for the Quebec spot then finds a marker of another cell and
  issues request 2: two requests for the same grid cell are pending at once.
\<close>

theorem fetchTideData_duplicate_request:
  "(let (r1, s1) = fetchTideData sampleEnv 46.8 (- 71.2) sampleState;
        (r2, s2) = fetchTideData sampleEnv 19.75 (- 70.41) s1;
        (r3, s3) = fetchTideData sampleEnv 46.8 (- 71.2) s2
    in r1 = Awaits 0 \<and> r2 = Awaits 1 \<and> r3 = Awaits 2 \<and>
       pending s2 = [(0, gridKey 46.8 (- 71.2)), (1, gridKey 19.75 (- 70.41))] \<and>
       pending s3 = [(0, gridKey 46.8 (- 71.2)), (1, gridKey 19.75 (- 70.41)),
                     (2, gridKey 46.8 (- 71.2))])"
  unfolding Let_def fetch_quebec_first prod.case fetch_cabarete_second fetch_quebec_third
  by (simp add: gridKey_def)

text \<open>
  Where the marker is still that of the cell asked for, a call that reaches the in-flight
  check issues no request and returns the promise in flight.
\<close>

lemma fetchTideData_shares_inflight:
  assumes "\<not> cacheCovers env lat' lng' s" "loadCache env lat' lng' s = None"
    "findSeed env lat' lng' = None" "apiKey s \<noteq> []"
    "inflight s = Some p" "inflightGrid s = Some (gridKey lat' lng')"
  shows "fetchTideData env lat' lng' s = (Awaits p, s)"
  using assms by (simp add: fetchTideData_def)

text \<open>
  The asynchronous path treats a record of another day as a miss, in memory and in
  \<^verbatim>\<open>localStorage\<close>.
\<close>

lemma cacheCovers_rejects_other_day:
  "memCache s = Some c \<Longrightarrow> date c \<noteq> today env \<Longrightarrow> \<not> cacheCovers env lat' lng' s"
  by (simp add: cacheCovers_def)

lemma loadCache_rejects_other_day:
  "localStorage s (gridKey lat' lng') = Some c \<Longrightarrow> date c \<noteq> today env \<Longrightarrow>
   loadCache env lat' lng' s = None"
  by (simp add: loadCache_def)

text \<open>
  C8. \<^verbatim>\<open>ensureCache\<close> compares latitudes only: with a memory-cache record dated
  2024-06-02 and today being 2024-06-03, \<^verbatim>\<open>cacheCovers\<close> rejects the record, but
  \<^verbatim>\<open>tideAt\<close> answers 9.9 from its hourly samples instead of evaluating the simulator.
\<close>

theorem tideAt_answers_from_stale_cache:
  "date staleCache \<noteq> today sampleEnv \<and>
   \<not> cacheCovers sampleEnv 46.8 (- 71.2) (sampleState\<lparr>memCache := Some staleCache\<rparr>) \<and>
   tideAt sampleEnv 0 0 46.8 (sampleState\<lparr>memCache := Some staleCache\<rparr>) =
     (9.9, sampleState\<lparr>memCache := Some staleCache\<rparr>)"
  by (simp add: cacheCovers_def tideAt_def ensureCache_def nearest_def Let_def)

text \<open>
  The \<^verbatim>\<open>finally\<close> block of a request that settles clears the marker whichever request
  owns it: when request 0 settles while request 1 (Cabarete) is in flight, the marker is
  emptied although request 1 is still pending.
\<close>

lemma doFetch_settle_clears_newer_marker:
  "doFetch_settle sampleEnv 46.8 (- 71.2) 0 Rejected
     (sampleState\<lparr>inflightGrid := Some (66, - 235), inflight := Some 1,
                  pending := [(0, (156, - 237)), (1, (66, - 235))], issued := 2\<rparr>) =
     (False, sampleState\<lparr>inflightGrid := None, inflight := None,
                  pending := [(1, (66, - 235))], issued := 2\<rparr>)"
  by (simp add: doFetch_settle_def)

section \<open>The tide simulation\<close>

lemma tideRaw_zero_phase:
  "tideRaw env 0 0 (- (417 / 73)) =
     2.1 + (1.6 + 0.4 * cos (getDayOfYear env / 14.76 * 2 * pi)) *
           (1 + 0.18 * cos 0.8 + 0.06 * cos 0.4)"
proof -
  have r: "js_rem (- (417 / 73) * 7.3 + 41.7) 360 = 0"
    by (simp add: js_rem_def)
  show ?thesis
    unfolding tideRaw_def Let_def r SPRING_NEAP_PERIOD_def
    by (simp add: algebra_simps)
qed

lemma harmonic_factor_pos: "0 < 1 + 0.18 * cos (0.8::real) + 0.06 * cos (0.4::real)"
proof -
  have a: "- 1 \<le> cos (0.8::real)" and b: "- 1 \<le> cos (0.4::real)"
    by (rule cos_ge_minus_one)+
  have "1 + 0.18 * cos (0.8::real) + 0.06 * cos (0.4::real)
      = 1 + (9 / 50) * cos (0.8::real) + (3 / 50) * cos (0.4::real)" by simp
  also have "\<dots> > 0" using a b by linarith
  finally show ?thesis .
qed

lemma day_one: "getDayOfYear (sampleEnv\<lparr>today := ''2024-01-01'', nowMs := 1704128400000\<rparr>) = 1"
  by (simp add: getDayOfYear_def)

lemma day_two: "getDayOfYear (sampleEnv\<lparr>today := ''2024-01-02'', nowMs := 1704214800000\<rparr>) = 2"
  by (simp add: getDayOfYear_def)

lemma spring_neap_differs: "cos (2 / 14.76 * 2 * pi) < cos (1 / 14.76 * 2 * pi)"
proof (rule cos_monotone_0_pi)
  show "0 \<le> 1 / 14.76 * 2 * pi" by simp
  show "1 / 14.76 * 2 * pi < 2 / 14.76 * 2 * pi" by simp
  show "2 / 14.76 * 2 * pi \<le> pi" by simp
qed

text \<open>
  C9 as stated fails: \<^verbatim>\<open>tideRaw\<close> reads the clock through \<^verbatim>\<open>getDayOfYear()\<close>.
  The same arguments give different levels at noon of 1 January and at noon of 2 January.
\<close>

theorem tideRaw_depends_on_clock_counterexample:
  "tideRaw (sampleEnv\<lparr>today := ''2024-01-01'', nowMs := 1704128400000\<rparr>) 0 0 (- (417 / 73)) \<noteq>
   tideRaw (sampleEnv\<lparr>today := ''2024-01-02'', nowMs := 1704214800000\<rparr>) 0 0 (- (417 / 73))"
proof -
  let ?K = "1 + 0.18 * cos (0.8::real) + 0.06 * cos (0.4::real)"
  let ?c1 = "cos (1 / 14.76 * 2 * pi)" and ?c2 = "cos (2 / 14.76 * 2 * pi)"
  have lt: "?c2 < ?c1" by (rule spring_neap_differs)
  have kp: "0 < ?K" by (rule harmonic_factor_pos)
  from lt have "1.6 + 0.4 * ?c2 < 1.6 + 0.4 * ?c1" by simp
  from mult_strict_right_mono [OF this kp]
  have "(1.6 + 0.4 * ?c2) * ?K < (1.6 + 0.4 * ?c1) * ?K" .
  then have "2.1 + (1.6 + 0.4 * ?c1) * ?K \<noteq> 2.1 + (1.6 + 0.4 * ?c2) * ?K" by linarith
  then show ?thesis
    unfolding tideRaw_zero_phase day_one day_two by simp
qed

text \<open>
  C9, as the code has it. \<^verbatim>\<open>tideRaw\<close> is a function of its three arguments and of the
  current day of the year: two evaluations with the same arguments on the same day of the
  year give the same level.
\<close>

theorem tideRaw_function_of_arguments_and_day:
  "getDayOfYear env = getDayOfYear env' \<longrightarrow>
     tideRaw env dayOffset hour' lat' = tideRaw env' dayOffset hour' lat'"
  by (simp add: tideRaw_def)

theorem tideRaw_function_of_arguments_and_day_witness:
  "getDayOfYear sampleEnv = getDayOfYear (sampleEnv\<lparr>nowMs := 1717430400001\<rparr>) \<and>
   tideRaw sampleEnv 0 12 46.8 = tideRaw (sampleEnv\<lparr>nowMs := 1717430400001\<rparr>) 0 12 46.8"
proof -
  have h: "getDayOfYear sampleEnv = getDayOfYear (sampleEnv\<lparr>nowMs := 1717430400001\<rparr>)"
    by (simp add: getDayOfYear_def)
  note c = tideRaw_function_of_arguments_and_day
    [of sampleEnv "sampleEnv\<lparr>nowMs := 1717430400001\<rparr>" 0 12 "46.8", rule_format, OF h]
  show ?thesis by (rule conjI [OF h c])
qed

end
